theory Spec2Isabelle
  imports Main "HOL-Library.Char_ord" "HOL-Library.List_Lexorder"
begin

section \<open>Shared data model of the listeners\<close>

text \<open>
  Every listener (spout) of the repository is a Python class holding an output sink
  (\<open>self.output\<close>), a state store (\<open>self.state\<close>) and an identity (\<open>self.id\<close>). The
  listeners never return while the transport keeps delivering, so a run is modelled on a
  finite prefix of what the transport delivers: the list of outcomes of the successive
  fetch calls. The result of a run is the world after that prefix and a status: still
  inside the loop, returned normally, or left by an exception.

  Exceptions are values. Only the distinctions the handlers of the source make are kept:
  \<open>except Exception\<close> catches every constructor, \<open>except HTTPError\<close> and
  \<open>except RequestException\<close> in the HTTP poller select their own. Calls of \<open>self.log\<close>
  have no effect on the sink or the store and are left out.
\<close>

datatype exn =
    JSONDecodeError
  | TypeError
  | IndexError
  | ValueError string
  | ConnectionError
  | SinkError
  | HTTPError nat
  | RequestException
  | AttributeError

datatype status = Running | Returned | Raised exn

text \<open>
  The state dictionary kept per identity. Its counters are Python ints. The key
  \<open>"last_id"\<close> is written by the Redis stream listener only; for the other listeners it
  is absent and left as it is by \<open>current_state["success_count"] += 1\<close>.
  The state store is taken to hold only dictionaries written by these listeners, and its
  \<open>get_state\<close> and \<open>set_state\<close> are taken not to raise.
\<close>

datatype pyfield = Absent | PyNone | PyStr string

record outcome =
  success_count :: int
  failure_count :: int
  last_id :: pyfield

text \<open>What each listener hands to \<open>self.output.save\<close>.\<close>

datatype 'j zmq_data = ZJson 'j | ZRaw string

datatype 'j envelope =
    KafkaData 'j
  | AmqpEnv 'j string "(string \<times> string) list"
  | PubSubEnv 'j string
  | StreamEnv "(string \<times> string) list" string string
  | KinesisEnv 'j string
  | ZmqEnv "'j zmq_data" string string
  | HttpEnv 'j string string "(string \<times> string) list option" "(string \<times> string) list option"

record 'j world =
  store :: "string \<rightharpoonup> outcome"
  saved :: "'j envelope list"

text \<open>
  \<open>self.state.get_state(self.id) or {"success_count": 0, "failure_count": 0}\<close>
\<close>

definition default_state :: "pyfield \<Rightarrow> outcome" where
  "default_state lid = \<lparr>success_count = 0, failure_count = 0, last_id = lid\<rparr>"

definition get_state_or :: "'j world \<Rightarrow> string \<Rightarrow> outcome \<Rightarrow> outcome" where
  "get_state_or w self_id dflt = (case store w self_id of None \<Rightarrow> dflt | Some s \<Rightarrow> s)"

definition set_state :: "string \<Rightarrow> outcome \<Rightarrow> 'j world \<Rightarrow> 'j world" where
  "set_state self_id s w = w\<lparr>store := (store w)(self_id \<mapsto> s)\<rparr>"

text \<open>
  The block repeated in every listener after a successful save:
  read the state (or the default), \<open>current_state["success_count"] += 1\<close>, write it back.
\<close>

definition record_success :: "string \<Rightarrow> 'j world \<Rightarrow> 'j world" where
  "record_success self_id w =
     (let current_state = get_state_or w self_id (default_state Absent) in
      set_state self_id (current_state\<lparr>success_count := success_count current_state + 1\<rparr>) w)"

text \<open>The block repeated in the \<open>except Exception\<close> handlers.\<close>

definition record_failure :: "string \<Rightarrow> 'j world \<Rightarrow> 'j world" where
  "record_failure self_id w =
     (let current_state = get_state_or w self_id (default_state Absent) in
      set_state self_id (current_state\<lparr>failure_count := failure_count current_state + 1\<rparr>) w)"

text \<open>
  \<open>self.output.save(x)\<close>: the sink either takes the value or raises. Which values it
  rejects is a parameter of the model.
\<close>

definition output_save :: "('j envelope \<Rightarrow> bool) \<Rightarrow> 'j envelope \<Rightarrow> 'j world \<Rightarrow> exn + 'j world" where
  "output_save save_ok x w =
     (if save_ok x then Inr (w\<lparr>saved := saved w @ [x]\<rparr>) else Inl SinkError)"

text \<open>
  \<open>json.loads\<close> is a parameter: \<open>None\<close> stands for a payload it rejects.
\<close>

definition json_loads :: "(string \<Rightarrow> 'j option) \<Rightarrow> string \<Rightarrow> exn + 'j" where
  "json_loads loads s = (case loads s of None \<Rightarrow> Inl JSONDecodeError | Some d \<Rightarrow> Inr d)"

section \<open>Kafka.listen\<close>

text \<open>
  One outcome of \<open>consumer.poll(1.0)\<close>: no message within the timeout, a message that
  carries an error, a message with a value (\<open>message.value()\<close> may be \<open>None\<close>), or an
  exception raised by the call.
\<close>

datatype kafka_error_code = PARTITION_EOF | OTHER_KAFKA_ERROR

datatype kafka_poll =
    PollNone
  | PollError kafka_error_code
  | PollMessage "string option"
  | PollRaises exn

text \<open>The body of the \<open>try\<close> inside \<open>while True\<close>.\<close>

definition kafka_try ::
  "(string \<Rightarrow> 'j option) \<Rightarrow> ('j envelope \<Rightarrow> bool) \<Rightarrow> string \<Rightarrow> kafka_poll \<Rightarrow> 'j world \<Rightarrow> exn + 'j world" where
  "kafka_try loads save_ok self_id message w =
     (case message of
        PollRaises e \<Rightarrow> Inl e
      | PollNone \<Rightarrow> Inr w
      | PollError c \<Rightarrow> Inr w
      | PollMessage v \<Rightarrow>
          (case (case v of None \<Rightarrow> Inl TypeError | Some s \<Rightarrow> json_loads loads s) of
             Inl e \<Rightarrow> Inl e
           | Inr d \<Rightarrow>
               (case output_save save_ok (KafkaData d) w of
                  Inl e \<Rightarrow> Inl e
                | Inr w' \<Rightarrow> Inr (record_success self_id w'))))"

text \<open>One iteration: the \<open>try\<close> body, and on any exception the failure block.\<close>

definition kafka_step ::
  "(string \<Rightarrow> 'j option) \<Rightarrow> ('j envelope \<Rightarrow> bool) \<Rightarrow> string \<Rightarrow> kafka_poll \<Rightarrow> 'j world \<Rightarrow> 'j world" where
  "kafka_step loads save_ok self_id message w =
     (case kafka_try loads save_ok self_id message w of
        Inl e \<Rightarrow> record_failure self_id w
      | Inr w' \<Rightarrow> w')"

text \<open>
  \<open>Consumer(config)\<close> and \<open>consumer.subscribe\<close> are outside every \<open>try\<close>: an exception
  there leaves \<open>listen\<close>. The loop itself has no exit.
\<close>

definition kafka_listen ::
  "(string \<Rightarrow> 'j option) \<Rightarrow> ('j envelope \<Rightarrow> bool) \<Rightarrow> string \<Rightarrow> exn option \<Rightarrow> kafka_poll list
     \<Rightarrow> 'j world \<Rightarrow> status \<times> 'j world" where
  "kafka_listen loads save_ok self_id connect polls w =
     (case connect of
        Some e \<Rightarrow> (Raised e, w)
      | None \<Rightarrow> (Running, fold (kafka_step loads save_ok self_id) polls w))"

section \<open>RedisPubSub.listen\<close>

text \<open>
  What the generator \<open>pubsub.listen()\<close> does when the \<open>for\<close> statement asks it for the
  next item: it yields a message dictionary (its \<open>"type"\<close> and \<open>"data"\<close>), raises, or
  ends. The generator is advanced by the \<open>for\<close> statement, outside the \<open>try\<close>.
\<close>

datatype pubsub_item =
    PubSubYield string string
  | PubSubRaises exn
  | PubSubStop

definition pubsub_try ::
  "(string \<Rightarrow> 'j option) \<Rightarrow> ('j envelope \<Rightarrow> bool) \<Rightarrow> string \<Rightarrow> string \<Rightarrow> string \<Rightarrow> string
     \<Rightarrow> 'j world \<Rightarrow> exn + 'j world" where
  "pubsub_try loads save_ok self_id channel msg_type msg_data w =
     (if msg_type = ''message'' then
        (case json_loads loads msg_data of
           Inl e \<Rightarrow> Inl e
         | Inr d \<Rightarrow>
             (case output_save save_ok (PubSubEnv d channel) w of
                Inl e \<Rightarrow> Inl e
              | Inr w' \<Rightarrow> Inr (record_success self_id w')))
      else Inr w)"

definition pubsub_step ::
  "(string \<Rightarrow> 'j option) \<Rightarrow> ('j envelope \<Rightarrow> bool) \<Rightarrow> string \<Rightarrow> string \<Rightarrow> string \<Rightarrow> string
     \<Rightarrow> 'j world \<Rightarrow> 'j world" where
  "pubsub_step loads save_ok self_id channel msg_type msg_data w =
     (case pubsub_try loads save_ok self_id channel msg_type msg_data w of
        Inl e \<Rightarrow> record_failure self_id w
      | Inr w' \<Rightarrow> w')"

fun pubsub_loop ::
  "(string \<Rightarrow> 'j option) \<Rightarrow> ('j envelope \<Rightarrow> bool) \<Rightarrow> string \<Rightarrow> string \<Rightarrow> pubsub_item list
     \<Rightarrow> 'j world \<Rightarrow> status \<times> 'j world" where
  "pubsub_loop loads save_ok self_id channel [] w = (Running, w)"
| "pubsub_loop loads save_ok self_id channel (PubSubRaises e # rest) w = (Raised e, w)"
| "pubsub_loop loads save_ok self_id channel (PubSubStop # rest) w = (Returned, w)"
| "pubsub_loop loads save_ok self_id channel (PubSubYield msg_type msg_data # rest) w =
     pubsub_loop loads save_ok self_id channel rest
       (pubsub_step loads save_ok self_id channel msg_type msg_data w)"

text \<open>\<open>pubsub.subscribe(channel)\<close> opens the connection, outside every \<open>try\<close>.\<close>

definition pubsub_listen ::
  "(string \<Rightarrow> 'j option) \<Rightarrow> ('j envelope \<Rightarrow> bool) \<Rightarrow> string \<Rightarrow> string \<Rightarrow> exn option
     \<Rightarrow> pubsub_item list \<Rightarrow> 'j world \<Rightarrow> status \<times> 'j world" where
  "pubsub_listen loads save_ok self_id channel connect items w =
     (case connect of
        Some e \<Rightarrow> (Raised e, w)
      | None \<Rightarrow> pubsub_loop loads save_ok self_id channel items w)"

section \<open>ZeroMQ.listen\<close>

datatype zmq_recv = Recv string | RecvRaises exn

text \<open>
  \<open>message.split(" ", 1)[1]\<close>: what follows the first space; an \<open>IndexError\<close> when the
  message has no space.
\<close>

definition split_space_snd :: "string \<Rightarrow> exn + string" where
  "split_space_snd message =
     (if CHR '' '' \<in> set message
      then Inr (tl (dropWhile (\<lambda>c. c \<noteq> CHR '' '') message))
      else Inl IndexError)"

text \<open>The body of \<open>while True\<close>, for one outcome of \<open>socket.recv_string()\<close>.\<close>

definition zmq_body ::
  "(string \<Rightarrow> 'j option) \<Rightarrow> ('j envelope \<Rightarrow> bool) \<Rightarrow> string \<Rightarrow> string \<Rightarrow> string \<Rightarrow> zmq_recv
     \<Rightarrow> 'j world \<Rightarrow> exn + 'j world" where
  "zmq_body loads save_ok self_id topic syntax r w =
     (case r of
        RecvRaises e \<Rightarrow> Inl e
      | Recv message \<Rightarrow>
          (case (if syntax = ''json''
                 then (case split_space_snd message of
                         Inl e \<Rightarrow> Inl e
                       | Inr s \<Rightarrow> (case json_loads loads s of Inl e \<Rightarrow> Inl e | Inr d \<Rightarrow> Inr (ZJson d)))
                 else Inr (ZRaw message)) of
             Inl e \<Rightarrow> Inl e
           | Inr data \<Rightarrow>
               (case output_save save_ok (ZmqEnv data topic syntax) w of
                  Inl e \<Rightarrow> Inl e
                | Inr w' \<Rightarrow> Inr (record_success self_id w'))))"

text \<open>
  The \<open>try\<close> encloses the whole \<open>while True\<close>: the first exception runs the failure
  block, after which \<open>listen\<close> ends. The counter is the number of \<open>recv_string\<close> calls
  that have come back.
\<close>

fun zmq_loop ::
  "(string \<Rightarrow> 'j option) \<Rightarrow> ('j envelope \<Rightarrow> bool) \<Rightarrow> string \<Rightarrow> string \<Rightarrow> string \<Rightarrow> zmq_recv list
     \<Rightarrow> nat \<Rightarrow> 'j world \<Rightarrow> status \<times> nat \<times> 'j world" where
  "zmq_loop loads save_ok self_id topic syntax [] n w = (Running, n, w)"
| "zmq_loop loads save_ok self_id topic syntax (r # rest) n w =
     (case zmq_body loads save_ok self_id topic syntax r w of
        Inl e \<Rightarrow> (Returned, Suc n, record_failure self_id w)
      | Inr w' \<Rightarrow> zmq_loop loads save_ok self_id topic syntax rest (Suc n) w')"

definition zmq_listen ::
  "(string \<Rightarrow> 'j option) \<Rightarrow> ('j envelope \<Rightarrow> bool) \<Rightarrow> string \<Rightarrow> string \<Rightarrow> string \<Rightarrow> string option
     \<Rightarrow> exn option \<Rightarrow> zmq_recv list \<Rightarrow> 'j world \<Rightarrow> status \<times> nat \<times> 'j world" where
  "zmq_listen loads save_ok self_id topic syntax socket_type connect recvs w =
     (if socket_type = Some ''SUB'' then
        (case connect of
           Some e \<Rightarrow> (Raised e, 0, w)
         | None \<Rightarrow> zmq_loop loads save_ok self_id topic syntax recvs 0 w)
      else
        (Raised (ValueError (''Unsupported socket type: '' @
                   (case socket_type of None \<Rightarrow> ''None'' | Some s \<Rightarrow> s))), 0, w))"

section \<open>Kinesis.listen\<close>

text \<open>
  One outcome of \<open>self.kinesis.get_records(ShardIterator=shard_iterator, Limit=100)\<close>:
  the records (each its \<open>"Data"\<close> and \<open>"SequenceNumber"\<close>) with \<open>"NextShardIterator"\<close>
  (null once the shard is closed), or an exception.
\<close>

datatype kinesis_response =
    GetRecords "(string \<times> string) list" "string option"
  | GetRecordsRaises exn

text \<open>
  \<open>for record in response["Records"]\<close>: an exception leaves the loop with the records
  before it saved and counted.
\<close>

fun kinesis_records ::
  "(string \<Rightarrow> 'j option) \<Rightarrow> ('j envelope \<Rightarrow> bool) \<Rightarrow> string \<Rightarrow> (string \<times> string) list
     \<Rightarrow> 'j world \<Rightarrow> exn option \<times> 'j world" where
  "kinesis_records loads save_ok self_id [] w = (None, w)"
| "kinesis_records loads save_ok self_id ((data, sequence_number) # rest) w =
     (case json_loads loads data of
        Inl e \<Rightarrow> (Some e, w)
      | Inr d \<Rightarrow>
          (case output_save save_ok (KinesisEnv d sequence_number) w of
             Inl e \<Rightarrow> (Some e, w)
           | Inr w' \<Rightarrow> kinesis_records loads save_ok self_id rest (record_success self_id w')))"

text \<open>
  One iteration of \<open>while True\<close> on the local variable \<open>shard_iterator\<close> and the world.
  \<open>shard_iterator = response["NextShardIterator"]\<close> is the last statement of the \<open>try\<close>.
\<close>

definition kinesis_step ::
  "(string \<Rightarrow> 'j option) \<Rightarrow> ('j envelope \<Rightarrow> bool) \<Rightarrow> string \<Rightarrow> kinesis_response
     \<Rightarrow> string option \<times> 'j world \<Rightarrow> string option \<times> 'j world" where
  "kinesis_step loads save_ok self_id response s =
     (case s of (shard_iterator, w) \<Rightarrow>
        (case response of
           GetRecordsRaises e \<Rightarrow> (shard_iterator, record_failure self_id w)
         | GetRecords records next_shard_iterator \<Rightarrow>
             (case kinesis_records loads save_ok self_id records w of
                (Some e, w') \<Rightarrow> (shard_iterator, record_failure self_id w')
              | (None, w') \<Rightarrow> (next_shard_iterator, w'))))"

text \<open>
  \<open>get_shard_iterator(..., ShardIteratorType="LATEST")\<close> is called outside the \<open>try\<close>;
  its result is the first iterator whatever the state store holds.
\<close>

definition kinesis_listen ::
  "(string \<Rightarrow> 'j option) \<Rightarrow> ('j envelope \<Rightarrow> bool) \<Rightarrow> string \<Rightarrow> exn + string \<Rightarrow> kinesis_response list
     \<Rightarrow> 'j world \<Rightarrow> status \<times> string option \<times> 'j world" where
  "kinesis_listen loads save_ok self_id latest responses w =
     (case latest of
        Inl e \<Rightarrow> (Raised e, None, w)
      | Inr it \<Rightarrow> (Running, fold (kinesis_step loads save_ok self_id) responses (Some it, w)))"

section \<open>RabbitMQ.listen\<close>

text \<open>
  What \<open>channel.start_consuming()\<close> does next: it delivers a message to \<open>_callback\<close>
  (\<open>method.routing_key\<close>, \<open>properties.headers\<close>, \<open>body\<close>) or raises.
\<close>

datatype amqp_event =
    Deliver string "(string \<times> string) list option" string
  | ConsumeRaises exn

text \<open>\<open>dict(properties.headers)\<close> raises a \<open>TypeError\<close> when the headers are \<open>None\<close>.\<close>

definition callback_try ::
  "(string \<Rightarrow> 'j option) \<Rightarrow> ('j envelope \<Rightarrow> bool) \<Rightarrow> string \<Rightarrow> string
     \<Rightarrow> (string \<times> string) list option \<Rightarrow> string \<Rightarrow> 'j world \<Rightarrow> exn + 'j world" where
  "callback_try loads save_ok self_id routing_key headers body w =
     (case json_loads loads body of
        Inl e \<Rightarrow> Inl e
      | Inr d \<Rightarrow>
          (case headers of
             None \<Rightarrow> Inl TypeError
           | Some h \<Rightarrow>
               (case output_save save_ok (AmqpEnv d routing_key h) w of
                  Inl e \<Rightarrow> Inl e
                | Inr w' \<Rightarrow> Inr (record_success self_id w'))))"

definition callback ::
  "(string \<Rightarrow> 'j option) \<Rightarrow> ('j envelope \<Rightarrow> bool) \<Rightarrow> string \<Rightarrow> string
     \<Rightarrow> (string \<times> string) list option \<Rightarrow> string \<Rightarrow> 'j world \<Rightarrow> 'j world" where
  "callback loads save_ok self_id routing_key headers body w =
     (case callback_try loads save_ok self_id routing_key headers body w of
        Inl e \<Rightarrow> record_failure self_id w
      | Inr w' \<Rightarrow> w')"

fun start_consuming ::
  "(string \<Rightarrow> 'j option) \<Rightarrow> ('j envelope \<Rightarrow> bool) \<Rightarrow> string \<Rightarrow> amqp_event list
     \<Rightarrow> 'j world \<Rightarrow> exn option \<times> 'j world" where
  "start_consuming loads save_ok self_id [] w = (None, w)"
| "start_consuming loads save_ok self_id (ConsumeRaises e # rest) w = (Some e, w)"
| "start_consuming loads save_ok self_id (Deliver routing_key headers body # rest) w =
     start_consuming loads save_ok self_id rest
       (callback loads save_ok self_id routing_key headers body w)"

text \<open>
  The \<open>try\<close> of \<open>listen\<close> encloses the connection set-up and \<open>start_consuming\<close>; its
  handler runs the failure block, after which \<open>listen\<close> ends.
\<close>

definition amqp_listen ::
  "(string \<Rightarrow> 'j option) \<Rightarrow> ('j envelope \<Rightarrow> bool) \<Rightarrow> string \<Rightarrow> exn option \<Rightarrow> amqp_event list
     \<Rightarrow> 'j world \<Rightarrow> status \<times> 'j world" where
  "amqp_listen loads save_ok self_id connect events w =
     (case connect of
        Some e \<Rightarrow> (Returned, record_failure self_id w)
      | None \<Rightarrow>
          (case start_consuming loads save_ok self_id events w of
             (Some e, w') \<Rightarrow> (Returned, record_failure self_id w')
           | (None, w') \<Rightarrow> (Running, w')))"

section \<open>RedisStream._listen\<close>

text \<open>
  The starting position. \<open>current_state\<close> is the stored dictionary, or the default whose
  \<open>"last_id"\<close> is the argument; the conditional expression of the source follows.
\<close>

definition pyfield_of :: "string option \<Rightarrow> pyfield" where
  "pyfield_of v = (case v of None \<Rightarrow> PyNone | Some s \<Rightarrow> PyStr s)"

definition start_last_id :: "outcome \<Rightarrow> string option \<Rightarrow> string" where
  "start_last_id current_state last_id_arg =
     (if last_id current_state \<noteq> Absent \<and> last_id_arg = None \<and> last_id current_state \<noteq> PyNone
      then (case last_id current_state of PyStr s \<Rightarrow> s | _ \<Rightarrow> [])
      else if last_id_arg = None then ''0''
      else (case last_id_arg of Some l \<Rightarrow> l | None \<Rightarrow> []))"

text \<open>
  One outcome of \<open>self.redis.xread\<close>: a list of streams, each with its entries (message
  identifier and fields), or an exception. The call is made with the single dictionary
  \<open>{stream_key: last_id, "count": 10, "block": 1000}\<close>; what the server answers to it
  is an input of the model.
\<close>

datatype xread =
    XRead "(string \<times> (string \<times> (string \<times> string) list) list) list"
  | XReadRaises exn

text \<open>The local variables of the loop, and the world.\<close>

record 'j stream_loop =
  cursor :: string
  current_state :: outcome
  world :: "'j world"

text \<open>
  The two nested \<open>for\<close> loops visit the entries of all returned streams in order.
  \<open>last_id = msg_id\<close> is the first statement for an entry, before the save.
\<close>

fun stream_messages ::
  "('j envelope \<Rightarrow> bool) \<Rightarrow> string \<Rightarrow> string \<Rightarrow> (string \<times> (string \<times> string) list) list
     \<Rightarrow> 'j stream_loop \<Rightarrow> exn option \<times> 'j stream_loop" where
  "stream_messages save_ok self_id stream_key [] s = (None, s)"
| "stream_messages save_ok self_id stream_key ((msg_id, msg_fields) # rest) s =
     (case output_save save_ok (StreamEnv msg_fields stream_key msg_id) (world s) of
        Inl e \<Rightarrow> (Some e, s\<lparr>cursor := msg_id\<rparr>)
      | Inr w' \<Rightarrow>
          (let st = get_state_or w' self_id (default_state (PyStr msg_id));
               st' = st\<lparr>success_count := success_count st + 1, last_id := PyStr msg_id\<rparr>
           in stream_messages save_ok self_id stream_key rest
                \<lparr>cursor = msg_id, current_state = st', world = set_state self_id st' w'\<rparr>))"

text \<open>
  The inner handler does not read the store again: it increments the local
  \<open>current_state\<close> and writes that.
\<close>

definition stream_failure :: "string \<Rightarrow> 'j stream_loop \<Rightarrow> 'j stream_loop" where
  "stream_failure self_id s =
     (let st' = (current_state s)\<lparr>failure_count := failure_count (current_state s) + 1\<rparr>
      in s\<lparr>current_state := st', world := set_state self_id st' (world s)\<rparr>)"

definition stream_step ::
  "('j envelope \<Rightarrow> bool) \<Rightarrow> string \<Rightarrow> string \<Rightarrow> xread \<Rightarrow> 'j stream_loop \<Rightarrow> 'j stream_loop" where
  "stream_step save_ok self_id stream_key r s =
     (case r of
        XReadRaises e \<Rightarrow> stream_failure self_id s
      | XRead result \<Rightarrow>
          (case stream_messages save_ok self_id stream_key (concat (map snd result)) s of
             (Some e, s') \<Rightarrow> stream_failure self_id s'
           | (None, s') \<Rightarrow> s'))"

text \<open>
  \<open>_listen\<close>. With a state store that does not raise nothing reaches the outer handler,
  and the loop has no exit.
\<close>

definition stream_listen ::
  "('j envelope \<Rightarrow> bool) \<Rightarrow> string \<Rightarrow> string \<Rightarrow> string option \<Rightarrow> xread list \<Rightarrow> 'j world
     \<Rightarrow> status \<times> 'j stream_loop" where
  "stream_listen save_ok self_id stream_key last_id_arg reads w =
     (let st = get_state_or w self_id (default_state (pyfield_of last_id_arg));
          lid = start_last_id st last_id_arg
      in (Running,
          fold (stream_step save_ok self_id stream_key) reads
            \<lparr>cursor = lid, current_state = st, world = w\<rparr>))"

section \<open>RESTAPIPoll.poll_api\<close>

text \<open>
  One outcome of the request: a response (status code and text) or an exception raised
  by the call. \<open>response.raise_for_status()\<close> raises \<open>HTTPError\<close> for the codes from 400
  to 599. \<open>response.json()\<close> is a parameter that says which exception it raises.
  \<open>RequestException\<close> stands for that class and its subclasses other than \<open>HTTPError\<close>.
  Of the exceptions only \<open>raise_for_status\<close> is taken to raise \<open>HTTPError\<close>, so that
  \<open>response\<close> is bound when its handler logs the status code.
\<close>

datatype http_call = Response nat string | RequestRaises exn

definition raise_for_status :: "nat \<Rightarrow> exn option" where
  "raise_for_status status_code =
     (if 400 \<le> status_code \<and> status_code < 600 then Some (HTTPError status_code) else None)"

definition poll_api_try ::
  "(string \<Rightarrow> exn + 'j) \<Rightarrow> ('j envelope \<Rightarrow> bool) \<Rightarrow> string \<Rightarrow> string \<Rightarrow> string
     \<Rightarrow> (string \<times> string) list option \<Rightarrow> (string \<times> string) list option
     \<Rightarrow> http_call \<Rightarrow> 'j world \<Rightarrow> exn + 'j world" where
  "poll_api_try response_json save_ok self_id url method headers params call w =
     (case call of
        RequestRaises e \<Rightarrow> Inl e
      | Response status_code text \<Rightarrow>
          (case raise_for_status status_code of
             Some e \<Rightarrow> Inl e
           | None \<Rightarrow>
               (case response_json text of
                  Inl e \<Rightarrow> Inl e
                | Inr data \<Rightarrow>
                    (case output_save save_ok (HttpEnv data url method headers params) w of
                       Inl e \<Rightarrow> Inl e
                     | Inr w' \<Rightarrow> Inr (record_success self_id w')))))"

text \<open>
  The three handlers in their order: \<open>except HTTPError\<close> and \<open>except RequestException\<close>
  log; \<open>except Exception\<close> logs and runs the failure block.
\<close>

definition poll_api ::
  "(string \<Rightarrow> exn + 'j) \<Rightarrow> ('j envelope \<Rightarrow> bool) \<Rightarrow> string \<Rightarrow> string \<Rightarrow> string
     \<Rightarrow> (string \<times> string) list option \<Rightarrow> (string \<times> string) list option
     \<Rightarrow> http_call \<Rightarrow> 'j world \<Rightarrow> 'j world" where
  "poll_api response_json save_ok self_id url method headers params call w =
     (case poll_api_try response_json save_ok self_id url method headers params call w of
        Inr w' \<Rightarrow> w'
      | Inl e \<Rightarrow>
          (case e of
             HTTPError c \<Rightarrow> w
           | RequestException \<Rightarrow> w
           | _ \<Rightarrow> record_failure self_id w))"

definition http_listen ::
  "(string \<Rightarrow> exn + 'j) \<Rightarrow> ('j envelope \<Rightarrow> bool) \<Rightarrow> string \<Rightarrow> string \<Rightarrow> string
     \<Rightarrow> (string \<times> string) list option \<Rightarrow> (string \<times> string) list option
     \<Rightarrow> http_call list \<Rightarrow> 'j world \<Rightarrow> status \<times> 'j world" where
  "http_listen response_json save_ok self_id url method headers params calls w =
     (Running, fold (poll_api response_json save_ok self_id url method headers params) calls w)"

section \<open>Notions used to state the properties\<close>

text \<open>
  The counters persisted for an identity, as a pair (successes, failures); an identity
  with no stored state reads as \<open>(0, 0)\<close>.
\<close>

definition counters :: "'j world \<Rightarrow> string \<Rightarrow> int \<times> int" where
  "counters w self_id =
     (case store w self_id of None \<Rightarrow> (0, 0) | Some st \<Rightarrow> (success_count st, failure_count st))"

text \<open>The stored state of an identity, or the default with both counters at zero.\<close>

definition stored_or_default :: "'j world \<Rightarrow> string \<Rightarrow> outcome" where
  "stored_or_default w self_id =
     (case store w self_id of
        None \<Rightarrow> \<lparr>success_count = 0, failure_count = 0, last_id = Absent\<rparr>
      | Some st \<Rightarrow> st)"

text \<open>
  Between two worlds the store was left alone, or the state of the identity was written
  once, as the prior state (or the default) with exactly one counter one higher.
\<close>

definition single_increment :: "string \<Rightarrow> 'j world \<Rightarrow> 'j world \<Rightarrow> bool" where
  "single_increment self_id w w' =
     (store w' = store w \<or>
      store w' = (store w)(self_id \<mapsto>
        (stored_or_default w self_id)\<lparr>success_count := success_count (stored_or_default w self_id) + 1\<rparr>) \<or>
      store w' = (store w)(self_id \<mapsto>
        (stored_or_default w self_id)\<lparr>failure_count := failure_count (stored_or_default w self_id) + 1\<rparr>))"

text \<open>
  Of a sequence of raw payloads: those the decoder rejects, and the decoded values of the
  others, both in the order of delivery.
\<close>

definition malformed :: "(string \<Rightarrow> 'j option) \<Rightarrow> string list \<Rightarrow> string list" where
  "malformed loads raw = filter (\<lambda>s. loads s = None) raw"

definition well_formed :: "(string \<Rightarrow> 'j option) \<Rightarrow> string list \<Rightarrow> 'j list" where
  "well_formed loads raw = List.map_filter loads raw"


section \<open>The accounting blocks\<close>

lemma counters_record_success:
  "counters (record_success i w) i = (fst (counters w i) + 1, snd (counters w i))"
  by (simp add: counters_def record_success_def set_state_def get_state_or_def default_state_def
      Let_def split: option.splits)

lemma counters_record_failure:
  "counters (record_failure i w) i = (fst (counters w i), snd (counters w i) + 1)"
  by (simp add: counters_def record_failure_def set_state_def get_state_or_def default_state_def
      Let_def split: option.splits)

lemma saved_record_success: "saved (record_success i w) = saved w"
  by (simp add: record_success_def set_state_def Let_def)

lemma saved_record_failure: "saved (record_failure i w) = saved w"
  by (simp add: record_failure_def set_state_def Let_def)

lemma counters_saved_update: "counters (w\<lparr>saved := xs\<rparr>) i = counters w i"
  by (simp add: counters_def)

lemma store_record_success:
  "store (record_success i w) = (store w)(i \<mapsto>
     (stored_or_default w i)\<lparr>success_count := success_count (stored_or_default w i) + 1\<rparr>)"
  by (simp add: record_success_def set_state_def get_state_or_def default_state_def
      stored_or_default_def Let_def)

lemma store_record_failure:
  "store (record_failure i w) = (store w)(i \<mapsto>
     (stored_or_default w i)\<lparr>failure_count := failure_count (stored_or_default w i) + 1\<rparr>)"
  by (simp add: record_failure_def set_state_def get_state_or_def default_state_def
      stored_or_default_def Let_def)

lemma stored_or_default_saved: "stored_or_default (w\<lparr>saved := xs\<rparr>) i = stored_or_default w i"
  by (simp add: stored_or_default_def)

section \<open>Exceptions raised by the fetch\<close>

lemma kafka_step_raises: "kafka_step loads save_ok i (PollRaises e) w = record_failure i w"
  by (simp add: kafka_step_def kafka_try_def)

lemma start_consuming_deliveries:
  "start_consuming loads save_ok i (map (\<lambda>(rk, h, b). Deliver rk h b) ds @ evs) w =
   start_consuming loads save_ok i evs
     (snd (start_consuming loads save_ok i (map (\<lambda>(rk, h, b). Deliver rk h b) ds) w))"
  by (induction ds arbitrary: w) auto

lemma start_consuming_running:
  "fst (start_consuming loads save_ok i (map (\<lambda>(rk, h, b). Deliver rk h b) ds) w) = None"
  by (induction ds arbitrary: w) auto

text \<open>
  The queue consumer: an exception raised by \<open>start_consuming\<close> after any deliveries is
  caught by the handler of \<open>listen\<close>, which runs the failure block on the world the
  deliveries left and lets \<open>listen\<close> return.
\<close>

lemma amqp_consume_error_returns:
  "amqp_listen loads save_ok i None (map (\<lambda>(rk, h, b). Deliver rk h b) ds @ ConsumeRaises e # events) w =
     (Returned, record_failure i
        (snd (amqp_listen loads save_ok i None (map (\<lambda>(rk, h, b). Deliver rk h b) ds) w)))"
proof -
  obtain x w1 where d: "start_consuming loads save_ok i (map (\<lambda>(rk, h, b). Deliver rk h b) ds) w
      = (x, w1)"
    by (cases "start_consuming loads save_ok i (map (\<lambda>(rk, h, b). Deliver rk h b) ds) w")
  have n: "x = None"
    using start_consuming_running [of loads save_ok i ds w] d by simp
  have a: "start_consuming loads save_ok i
        (map (\<lambda>(rk, h, b). Deliver rk h b) ds @ ConsumeRaises e # events) w = (Some e, w1)"
    by (simp add: start_consuming_deliveries d)
  show ?thesis by (simp add: amqp_listen_def a d n)
qed

text \<open>
  Claim C1, as amended. An exception raised by the fetch inside the loop leaves \<open>listen\<close>
  in the pub/sub subscriber, whose iterator is advanced outside the \<open>try\<close>. In the topic
  consumer (Kafka) it does not: once the consumer is set up \<open>listen\<close> never ends by an
  exception; an exception raised by \<open>poll\<close> is caught by the handler inside the loop,
  which raises the failure counter by one with the success counter and the sink
  untouched, and the loop goes on with the next poll; a message that carries a broker
  error is logged and changes nothing.
\<close>

theorem fetch_exception_handling:
  "fst (kafka_listen loads save_ok self_id None polls w) = Running \<and>
   kafka_listen loads save_ok self_id None (PollRaises e # polls) w =
     kafka_listen loads save_ok self_id None polls (kafka_step loads save_ok self_id (PollRaises e) w) \<and>
   counters (kafka_step loads save_ok self_id (PollRaises e) w) self_id =
     (fst (counters w self_id), snd (counters w self_id) + 1) \<and>
   saved (kafka_step loads save_ok self_id (PollRaises e) w) = saved w \<and>
   kafka_step loads save_ok self_id (PollError c) w = w \<and>
   pubsub_listen loads save_ok self_id channel None (PubSubRaises e # items) w = (Raised e, w)"
proof -
  have k: "fst (kafka_listen loads save_ok self_id None polls w) = Running \<and>
   kafka_listen loads save_ok self_id None (PollRaises e # polls) w =
     kafka_listen loads save_ok self_id None polls (kafka_step loads save_ok self_id (PollRaises e) w)"
    by (simp add: kafka_listen_def)
  have m: "kafka_step loads save_ok self_id (PollError c) w = w"
    by (simp add: kafka_step_def kafka_try_def)
  have p: "pubsub_listen loads save_ok self_id channel None (PubSubRaises e # items) w = (Raised e, w)"
    by (simp add: pubsub_listen_def)
  show ?thesis
    by (simp add: k m p kafka_step_raises counters_record_failure saved_record_failure)
qed

text \<open>
  Claim C1 as it stands fails on the topic consumer: after two messages that were saved,
  a connection error raised by the third poll is counted (the failure counter is 1, not
  0) and the listener is still in its loop.
\<close>

theorem kafka_connection_error_counterexample:
  "kafka_listen (\<lambda>s. if s = ''{bad json'' then None else Some s) (\<lambda>x. True) ''kafka-1'' None
     [PollMessage (Some ''{a: 1}''), PollMessage (Some ''{a: 2}''), PollRaises ConnectionError]
     \<lparr>store = Map.empty, saved = []\<rparr> =
   (Running,
    \<lparr>store = Map.empty(''kafka-1'' \<mapsto> \<lparr>success_count = 2, failure_count = 1, last_id = Absent\<rparr>),
     saved = [KafkaData ''{a: 1}'', KafkaData ''{a: 2}'']\<rparr>)"
  by (simp add: kafka_listen_def kafka_step_def kafka_try_def json_loads_def output_save_def
      record_success_def record_failure_def get_state_or_def set_state_def default_state_def)

section \<open>Malformed payloads among well-formed ones\<close>

lemma kafka_step_message:
  "\<forall>x. save_ok x \<Longrightarrow>
   kafka_step loads save_ok i (PollMessage (Some s)) w =
     (case loads s of
        None \<Rightarrow> record_failure i w
      | Some d \<Rightarrow> record_success i (w\<lparr>saved := saved w @ [KafkaData d]\<rparr>))"
  by (simp add: kafka_step_def kafka_try_def json_loads_def output_save_def split: option.splits)

lemma pubsub_step_message:
  "\<forall>x. save_ok x \<Longrightarrow>
   pubsub_step loads save_ok i channel ''message'' s w =
     (case loads s of
        None \<Rightarrow> record_failure i w
      | Some d \<Rightarrow> record_success i (w\<lparr>saved := saved w @ [PubSubEnv d channel]\<rparr>))"
  by (simp add: pubsub_step_def pubsub_try_def json_loads_def output_save_def split: option.splits)

lemma malformed_Cons:
  "malformed loads (s # raw) = (if loads s = None then s # malformed loads raw else malformed loads raw)"
  by (simp add: malformed_def)

lemma well_formed_Cons:
  "well_formed loads (s # raw) =
     (case loads s of None \<Rightarrow> well_formed loads raw | Some d \<Rightarrow> d # well_formed loads raw)"
  by (simp add: well_formed_def split: option.splits)

lemma length_well_formed:
  "length (well_formed loads raw) + length (malformed loads raw) = length raw"
proof (induction raw)
  case Nil
  show ?case by (simp add: malformed_def well_formed_def)
next
  case (Cons s raw)
  then show ?case by (simp add: malformed_Cons well_formed_Cons split: option.splits)
qed

lemma kafka_fold_messages:
  assumes ok: "\<forall>x. save_ok x"
  shows "counters (fold (kafka_step loads save_ok i) (map (\<lambda>s. PollMessage (Some s)) raw) w) i =
           (fst (counters w i) + int (length (well_formed loads raw)),
            snd (counters w i) + int (length (malformed loads raw))) \<and>
         saved (fold (kafka_step loads save_ok i) (map (\<lambda>s. PollMessage (Some s)) raw) w) =
           saved w @ map KafkaData (well_formed loads raw)"
proof (induction raw arbitrary: w)
  case Nil
  show ?case by (simp add: malformed_def well_formed_def)
next
  case (Cons s raw)
  show ?case
  proof (cases "loads s")
    case None
    then show ?thesis
      using Cons.IH [of "record_failure i w"]
      by (simp add: kafka_step_message [OF ok] malformed_Cons well_formed_Cons
          counters_record_failure saved_record_failure)
  next
    case (Some d)
    then show ?thesis
      using Cons.IH [of "record_success i (w\<lparr>saved := saved w @ [KafkaData d]\<rparr>)"]
      by (simp add: kafka_step_message [OF ok] malformed_Cons well_formed_Cons
          counters_record_success saved_record_success counters_saved_update)
  qed
qed

lemma pubsub_loop_messages:
  assumes ok: "\<forall>x. save_ok x"
  shows "fst (pubsub_loop loads save_ok i channel (map (PubSubYield ''message'') raw) w) = Running \<and>
         counters (snd (pubsub_loop loads save_ok i channel (map (PubSubYield ''message'') raw) w)) i =
           (fst (counters w i) + int (length (well_formed loads raw)),
            snd (counters w i) + int (length (malformed loads raw))) \<and>
         saved (snd (pubsub_loop loads save_ok i channel (map (PubSubYield ''message'') raw) w)) =
           saved w @ map (\<lambda>d. PubSubEnv d channel) (well_formed loads raw)"
proof (induction raw arbitrary: w)
  case Nil
  show ?case by (simp add: malformed_def well_formed_def)
next
  case (Cons s raw)
  show ?case
  proof (cases "loads s")
    case None
    then show ?thesis
      using Cons.IH [of "record_failure i w"]
      by (simp add: pubsub_step_message [OF ok] malformed_Cons well_formed_Cons
          counters_record_failure saved_record_failure)
  next
    case (Some d)
    then show ?thesis
      using Cons.IH [of "record_success i (w\<lparr>saved := saved w @ [PubSubEnv d channel]\<rparr>)"]
      by (simp add: pubsub_step_message [OF ok] malformed_Cons well_formed_Cons
          counters_record_success saved_record_success counters_saved_update)
  qed
qed

text \<open>
  The topic consumer and the pub/sub subscriber keep exact accounts. Let the transport
  deliver \<open>N\<close> raw payloads, \<open>M\<close> of which the decoder rejects, to one of these two
  listeners with a sink that accepts every value. The persisted failure counter ends
  \<open>M\<close> higher and the success counter \<open>N - M\<close> higher than they were (so they are \<open>M\<close>
  and \<open>N - M\<close> when no state was stored before), and the sink has received, after what
  it held, exactly the \<open>N - M\<close> values built from the well-formed payloads, in the
  order of delivery: the decoded value itself in the topic consumer, the decoded value
  with the channel in the pub/sub subscriber.
\<close>

theorem malformed_messages_accounting:
  assumes "\<forall>x. save_ok x"
  shows "counters (snd (kafka_listen loads save_ok self_id None
             (map (\<lambda>s. PollMessage (Some s)) raw) w)) self_id =
           (fst (counters w self_id) + (int (length raw) - int (length (malformed loads raw))),
            snd (counters w self_id) + int (length (malformed loads raw))) \<and>
         saved (snd (kafka_listen loads save_ok self_id None
             (map (\<lambda>s. PollMessage (Some s)) raw) w)) =
           saved w @ map KafkaData (well_formed loads raw) \<and>
         counters (snd (pubsub_listen loads save_ok self_id channel None
             (map (PubSubYield ''message'') raw) w)) self_id =
           (fst (counters w self_id) + (int (length raw) - int (length (malformed loads raw))),
            snd (counters w self_id) + int (length (malformed loads raw))) \<and>
         saved (snd (pubsub_listen loads save_ok self_id channel None
             (map (PubSubYield ''message'') raw) w)) =
           saved w @ map (\<lambda>d. PubSubEnv d channel) (well_formed loads raw) \<and>
         length (well_formed loads raw) = length raw - length (malformed loads raw) \<and>
         (store w self_id = None \<longrightarrow> counters w self_id = (0, 0))"
proof -
  have l: "int (length (well_formed loads raw)) = int (length raw) - int (length (malformed loads raw))"
    using length_well_formed [of loads raw] by simp
  have l': "length (well_formed loads raw) = length raw - length (malformed loads raw)"
    using length_well_formed [of loads raw] by simp
  have k: "kafka_listen loads save_ok self_id None (map (\<lambda>s. PollMessage (Some s)) raw) w =
      (Running, fold (kafka_step loads save_ok self_id) (map (\<lambda>s. PollMessage (Some s)) raw) w)"
    by (simp add: kafka_listen_def)
  have p: "pubsub_listen loads save_ok self_id channel None (map (PubSubYield ''message'') raw) w =
      pubsub_loop loads save_ok self_id channel (map (PubSubYield ''message'') raw) w"
    by (simp add: pubsub_listen_def)
  have z: "store w self_id = None \<longrightarrow> counters w self_id = (0, 0)"
    by (simp add: counters_def)
  show ?thesis
    using kafka_fold_messages [OF assms, of loads self_id raw w]
      pubsub_loop_messages [OF assms, of loads self_id channel raw w] l l' z
    by (simp add: k p)
qed

text \<open>
  The scenario of the specification: two well-formed payloads, a malformed one, a
  well-formed one, on a store with no prior state.
\<close>

theorem malformed_messages_accounting_witness:
  "counters (snd (kafka_listen (\<lambda>s. if s = ''{bad json'' then None else Some s) (\<lambda>x. True)
       ''kafka-1'' None
       (map (\<lambda>s. PollMessage (Some s)) [''{a: 1}'', ''{a: 7}'', ''{bad json'', ''{a: 2}''])
       \<lparr>store = Map.empty, saved = []\<rparr>)) ''kafka-1'' = (3, 1) \<and>
   saved (snd (kafka_listen (\<lambda>s. if s = ''{bad json'' then None else Some s) (\<lambda>x. True)
       ''kafka-1'' None
       (map (\<lambda>s. PollMessage (Some s)) [''{a: 1}'', ''{a: 7}'', ''{bad json'', ''{a: 2}''])
       \<lparr>store = Map.empty, saved = []\<rparr>)) =
     [KafkaData ''{a: 1}'', KafkaData ''{a: 7}'', KafkaData ''{a: 2}''] \<and>
   counters (snd (pubsub_listen (\<lambda>s. if s = ''{bad json'' then None else Some s) (\<lambda>x. True)
       ''kafka-1'' ''news'' None
       (map (PubSubYield ''message'') [''{a: 1}'', ''{a: 7}'', ''{bad json'', ''{a: 2}''])
       \<lparr>store = Map.empty, saved = []\<rparr>)) ''kafka-1'' = (3, 1) \<and>
   saved (snd (pubsub_listen (\<lambda>s. if s = ''{bad json'' then None else Some s) (\<lambda>x. True)
       ''kafka-1'' ''news'' None
       (map (PubSubYield ''message'') [''{a: 1}'', ''{a: 7}'', ''{bad json'', ''{a: 2}''])
       \<lparr>store = Map.empty, saved = []\<rparr>)) =
     [PubSubEnv ''{a: 1}'' ''news'', PubSubEnv ''{a: 7}'' ''news'', PubSubEnv ''{a: 2}'' ''news'']"
proof -
  have h: "\<forall>x::string envelope. (\<lambda>x. True) x" by simp
  show ?thesis
    using malformed_messages_accounting [OF h,
        of "\<lambda>s. if s = ''{bad json'' then None else Some s" "''kafka-1''"
           "[''{a: 1}'', ''{a: 7}'', ''{bad json'', ''{a: 2}'']"
           "\<lparr>store = Map.empty, saved = []\<rparr>" "''news''"]
    by (simp add: malformed_def well_formed_def counters_def)
qed

text \<open>
  The other listeners do not keep these accounts. In the shard reader a record that does
  not decode makes the iteration abandon the rest of its batch and leave the iterator
  where it was; when the service then answers the same iterator with the same batch,
  the record before the malformed one is saved and counted a second time and the
  malformed one is counted again. In the queue consumer a delivery whose body decodes
  but whose headers are \<open>None\<close> is counted as a failure and not saved.
\<close>

lemma kinesis_bad_record_refetched:
  "kinesis_listen (\<lambda>s. if s = ''{bad json'' then None else Some s) (\<lambda>x. True) ''kinesis-1'' (Inr ''it-0'')
     [GetRecords [(''{a: 1}'', ''1''), (''{bad json'', ''2''), (''{a: 2}'', ''3'')] (Some ''it-1''),
      GetRecords [(''{a: 1}'', ''1''), (''{bad json'', ''2''), (''{a: 2}'', ''3'')] (Some ''it-1'')]
     \<lparr>store = Map.empty, saved = []\<rparr> =
   (Running, Some ''it-0'',
    \<lparr>store = Map.empty(''kinesis-1'' \<mapsto> \<lparr>success_count = 2, failure_count = 2, last_id = Absent\<rparr>),
     saved = [KinesisEnv ''{a: 1}'' ''1'', KinesisEnv ''{a: 1}'' ''1'']\<rparr>)"
  by (simp add: kinesis_listen_def kinesis_step_def json_loads_def output_save_def
      record_success_def record_failure_def get_state_or_def set_state_def default_state_def)

lemma amqp_headers_none_counted_failure:
  "amqp_listen (\<lambda>s. if s = ''{bad json'' then None else Some s) (\<lambda>x. True) ''amqp-1'' None
     [Deliver ''orders'' None ''{a: 1}''] \<lparr>store = Map.empty, saved = []\<rparr> =
   (Running,
    \<lparr>store = Map.empty(''amqp-1'' \<mapsto> \<lparr>success_count = 0, failure_count = 1, last_id = Absent\<rparr>),
     saved = []\<rparr>)"
  by (simp add: amqp_listen_def callback_def callback_try_def json_loads_def
      record_failure_def get_state_or_def set_state_def default_state_def)

text \<open>
  Claim C2. On the socket subscriber the code does not do what the claim says. The
  subscriber is delivered \<open>N = 3\<close> raw messages, of which the second (\<open>M = 1\<close>) does not
  decode. The claim asks for a failure counter of 1, a success counter of 2 and two
  saves. The first message is saved and counted; the malformed second one raises the
  failure counter to 1, and \<open>listen\<close> has then returned after two \<open>recv_string\<close> calls:
  the third, well-formed message is never received, the success counter is 1 and the
  sink holds one value.
\<close>

theorem zmq_malformed_sequence_miscounted:
  "zmq_listen (\<lambda>s. if s = ''{bad json'' then None else Some s) (\<lambda>x. True) ''zmq-1'' ''news'' ''json''
     (Some ''SUB'') None [Recv ''news {a: 1}'', Recv ''news {bad json'', Recv ''news {a: 2}'']
     \<lparr>store = Map.empty, saved = []\<rparr> =
   (Returned, 2,
    \<lparr>store = Map.empty(''zmq-1'' \<mapsto> \<lparr>success_count = 1, failure_count = 1, last_id = Absent\<rparr>),
     saved = [ZmqEnv (ZJson ''{a: 1}'') ''news'' ''json'']\<rparr>)"
  by (simp add: zmq_listen_def zmq_body_def split_space_snd_def json_loads_def output_save_def
      record_success_def record_failure_def get_state_or_def set_state_def default_state_def)

section \<open>A failure on one message\<close>

lemma kinesis_records_failure_count:
  "snd (counters (snd (kinesis_records loads save_ok i records w)) i) = snd (counters w i)"
proof (induction records arbitrary: w)
  case Nil
  show ?case by simp
next
  case (Cons r rs)
  obtain d sq where r: "r = (d, sq)" by (cases r)
  show ?case
    by (simp add: r json_loads_def output_save_def Cons.IH counters_record_success
        counters_saved_update split: option.splits)
qed

text \<open>
  The socket subscriber: the handler encloses the loop, so the failure of a received
  message raises the failure counter by one and \<open>listen\<close> returns.
\<close>

lemma zmq_failure_ends_listen:
  assumes "zmq_body loads save_ok i topic syntax r w = Inl e"
  shows "zmq_loop loads save_ok i topic syntax (r # rest) n w = (Returned, Suc n, record_failure i w)"
  using assms by simp

text \<open>
  The shard reader: the handler is inside the loop. When a record of a batch fails, the
  failure counter is one higher after the iteration than before it, and the iterator is
  the one the failed request was made with.
\<close>

lemma kinesis_failure_counted:
  assumes "fst (kinesis_records loads save_ok i records w) = Some e"
  shows "snd (counters (snd (kinesis_step loads save_ok i (GetRecords records next_token)
             (shard_iterator, w))) i) = snd (counters w i) + 1 \<and>
         fst (kinesis_step loads save_ok i (GetRecords records next_token) (shard_iterator, w)) =
           shard_iterator"
proof -
  obtain w' where k: "kinesis_records loads save_ok i records w = (Some e, w')"
    using assms by (cases "kinesis_records loads save_ok i records w") auto
  have "snd (counters w' i) = snd (counters w i)"
    using kinesis_records_failure_count [of loads save_ok i records w] k by simp
  then show ?thesis
    by (simp add: kinesis_step_def k counters_record_failure)
qed

text \<open>
  Claim C3. On the socket subscriber the code does not do what the claim says. The
  subscriber receives a message whose payload does not decode, then a well-formed one.
  The first raises the failure counter to one, and \<open>listen\<close> has then returned: one
  \<open>recv_string\<close> call has been made, and the second message is never received nor
  saved.
\<close>

theorem zmq_bad_message_ends_listen:
  "zmq_listen (\<lambda>s. if s = ''{bad json'' then None else Some s) (\<lambda>x. True) ''zmq-1'' ''news'' ''json''
     (Some ''SUB'') None [Recv ''news {bad json'', Recv ''news {}'']
     \<lparr>store = Map.empty, saved = []\<rparr> =
   (Returned, 1,
    \<lparr>store = Map.empty(''zmq-1'' \<mapsto> \<lparr>success_count = 0, failure_count = 1, last_id = Absent\<rparr>),
     saved = []\<rparr>)"
  by (simp add: zmq_listen_def zmq_body_def split_space_snd_def json_loads_def
      record_failure_def get_state_or_def set_state_def default_state_def)

section \<open>The sequence token of the shard reader\<close>

text \<open>
  Claim C4, as amended. When \<open>get_records\<close> returns an empty batch together with a new
  token, the shard reader keeps the new token in its local variable \<open>shard_iterator\<close>
  only: the state store and the sink are left as they were, so nothing of the token is
  persisted. A call of \<open>listen\<close> starts from the iterator that \<open>get_shard_iterator\<close>
  returns for the latest position, whatever the store holds.
\<close>

theorem kinesis_token_not_persisted:
  "kinesis_step loads save_ok self_id (GetRecords [] next_token) (shard_iterator, w) = (next_token, w) \<and>
   kinesis_listen loads save_ok self_id (Inr latest) [] w = (Running, Some latest, w)"
  by (simp add: kinesis_listen_def kinesis_step_def)

text \<open>
  Claim C4 as it stands fails: after an empty batch that came with the new token
  \<open>it-1\<close>, the store holds no state for the identity, hence no token.
\<close>

theorem kinesis_empty_batch_counterexample:
  "kinesis_listen (\<lambda>s. Some s) (\<lambda>x. True) ''kinesis-1'' (Inr ''it-0'')
     [GetRecords [] (Some ''it-1'')] \<lparr>store = Map.empty, saved = []\<rparr> =
   (Running, Some ''it-1'', \<lparr>store = Map.empty, saved = []\<rparr>)"
  by (simp add: kinesis_listen_def kinesis_step_def)

section \<open>The cursor of the log-stream reader\<close>






section \<open>Empty fetches\<close>

lemma kafka_step_empty:
  "message = PollNone \<or> message = PollError c \<Longrightarrow> kafka_step loads save_ok self_id message w = w"
  by (auto simp: kafka_step_def kafka_try_def)

lemma kafka_fold_empty:
  "set polls \<subseteq> {PollNone, PollError PARTITION_EOF} \<Longrightarrow>
   fold (kafka_step loads save_ok self_id) polls w = w"
proof (induction polls arbitrary: w)
  case Nil
  show ?case by simp
next
  case (Cons p ps)
  from Cons.prems have "p = PollNone \<or> p = PollError PARTITION_EOF" by auto
  then have "kafka_step loads save_ok self_id p w = w" by (rule kafka_step_empty)
  moreover from Cons.prems have "set ps \<subseteq> {PollNone, PollError PARTITION_EOF}" by auto
  ultimately show ?case using Cons.IH by simp
qed

text \<open>
  Claim C6. In the topic consumer a poll that returns no message within the timeout, or
  a message that only carries the partition-EOF notice, changes nothing: after any
  number of such polls the state store (the counters and cursor of every identity) and
  the list of values saved to the sink are what they were before, and the listener is
  still in its loop.
\<close>

theorem kafka_empty_fetch_idle:
  "set polls \<subseteq> {PollNone, PollError PARTITION_EOF} \<Longrightarrow>
   kafka_listen loads save_ok self_id None polls w = (Running, w)"
  by (simp add: kafka_listen_def kafka_fold_empty)

text \<open>Three empty polls on a store that holds counters and a sink that holds a value.\<close>

theorem kafka_empty_fetch_idle_witness:
  "set [PollNone, PollError PARTITION_EOF, PollNone] \<subseteq> {PollNone, PollError PARTITION_EOF} \<and>
   kafka_listen (\<lambda>s. Some s) (\<lambda>x. True) ''spout-1'' None [PollNone, PollError PARTITION_EOF, PollNone]
     \<lparr>store = Map.empty(''spout-1'' \<mapsto> \<lparr>success_count = 4, failure_count = 1, last_id = Absent\<rparr>),
      saved = [KafkaData ''a'']\<rparr>
   = (Running,
     \<lparr>store = Map.empty(''spout-1'' \<mapsto> \<lparr>success_count = 4, failure_count = 1, last_id = Absent\<rparr>),
      saved = [KafkaData ''a'']\<rparr>)"
proof -
  have h: "set [PollNone, PollError PARTITION_EOF, PollNone] \<subseteq> {PollNone, PollError PARTITION_EOF}"
    by simp
  show ?thesis using h kafka_empty_fetch_idle [OF h] by simp
qed

section \<open>The socket type of the socket subscriber\<close>

text \<open>
  Claim C7. For every \<open>socket_type\<close> other than \<open>"SUB"\<close> (an absent one included) the
  \<open>listen\<close> of the socket subscriber ends at once with the \<open>ValueError\<close> that names the
  unsupported type: no \<open>recv_string\<close> call is made, whatever the transport would deliver,
  and the state store and the sink are left as they were.
\<close>

theorem zmq_unsupported_socket_type:
  "socket_type \<noteq> Some ''SUB'' \<Longrightarrow>
   zmq_listen loads save_ok self_id topic syntax socket_type connect recvs w =
     (Raised (ValueError (''Unsupported socket type: '' @
        (case socket_type of None \<Rightarrow> ''None'' | Some s \<Rightarrow> s))), 0, w)"
  by (simp add: zmq_listen_def)

text \<open>A subscriber configured with \<open>"PUB"\<close> while two messages wait on the socket.\<close>

theorem zmq_unsupported_socket_type_witness:
  "Some ''PUB'' \<noteq> Some ''SUB'' \<and>
   zmq_listen (\<lambda>s. Some s) (\<lambda>x. True) ''zmq-1'' ''news'' ''json'' (Some ''PUB'') None
     [Recv ''news {}'', Recv ''news {}''] \<lparr>store = Map.empty, saved = []\<rparr> =
     (Raised (ValueError ''Unsupported socket type: PUB''), 0, \<lparr>store = Map.empty, saved = []\<rparr>)"
proof -
  have h: "Some ''PUB'' \<noteq> Some ''SUB''" by simp
  show ?thesis
    using h zmq_unsupported_socket_type [OF h, of "\<lambda>s. Some s" "\<lambda>x. True" "''zmq-1''" "''news''" "''json''" None
      "[Recv ''news {}'', Recv ''news {}'']" "\<lparr>store = Map.empty, saved = []\<rparr>"]
    by simp
qed

section \<open>Failures of the HTTP poller\<close>

text \<open>
  Claim C8. On the HTTP poller the code does not do what the claim says for two kinds
  of failing poll. A response with the error status 500, and a request that raises a
  \<open>RequestException\<close>, are logged by their own handlers, which do not touch the state:
  the store is left as it was and the failure counter of the identity still reads 0.
  Only the last handler runs the failure block, as for a sink that rejects the value,
  after which the counter reads 1; a poll that succeeds raises the success counter to 1.
\<close>

theorem poll_api_http_error_uncounted:
  "poll_api (\<lambda>s. Inr s) (\<lambda>x. True) ''poll-1'' ''https://api.example.com'' ''GET'' None None
     (Response 500 ''Internal Server Error'') \<lparr>store = Map.empty, saved = []\<rparr> =
     \<lparr>store = Map.empty, saved = []\<rparr> \<and>
   poll_api (\<lambda>s. Inr s) (\<lambda>x. True) ''poll-1'' ''https://api.example.com'' ''GET'' None None
     (RequestRaises RequestException) \<lparr>store = Map.empty, saved = []\<rparr> =
     \<lparr>store = Map.empty, saved = []\<rparr> \<and>
   counters (poll_api (\<lambda>s. Inr s) (\<lambda>x. True) ''poll-1'' ''https://api.example.com'' ''GET'' None None
     (Response 500 ''Internal Server Error'') \<lparr>store = Map.empty, saved = []\<rparr>) ''poll-1'' = (0, 0) \<and>
   counters (poll_api (\<lambda>s. Inr s) (\<lambda>x. False) ''poll-1'' ''https://api.example.com'' ''GET'' None None
     (Response 200 ''{}'') \<lparr>store = Map.empty, saved = []\<rparr>) ''poll-1'' = (0, 1) \<and>
   counters (poll_api (\<lambda>s. Inr s) (\<lambda>x. True) ''poll-1'' ''https://api.example.com'' ''GET'' None None
     (Response 200 ''{}'') \<lparr>store = Map.empty, saved = []\<rparr>) ''poll-1'' = (1, 0)"
  by (simp add: poll_api_def poll_api_try_def raise_for_status_def output_save_def counters_def
      record_success_def record_failure_def get_state_or_def set_state_def default_state_def)

section \<open>Every write moves one counter by one\<close>

lemma single_increment_kafka:
  "single_increment i w (kafka_step loads save_ok i message w)"
  by (cases message)
     (auto simp: single_increment_def kafka_step_def kafka_try_def json_loads_def output_save_def
        store_record_success store_record_failure stored_or_default_saved
        split: option.splits)

lemma single_increment_pubsub:
  "single_increment i w (pubsub_step loads save_ok i channel ty d w)"
  by (auto simp: single_increment_def pubsub_step_def pubsub_try_def json_loads_def output_save_def
        store_record_success store_record_failure stored_or_default_saved
        split: option.splits)

lemma single_increment_poll_api:
  "single_increment i w (poll_api rj save_ok i url method headers params call w)"
  by (cases call)
     (auto simp: single_increment_def poll_api_def poll_api_try_def raise_for_status_def output_save_def
        store_record_success store_record_failure stored_or_default_saved
        split: option.splits sum.splits exn.splits)

lemma single_increment_mono:
  assumes "single_increment i w w'"
  shows "success_count (stored_or_default w i) \<le> success_count (stored_or_default w' i) \<and>
         failure_count (stored_or_default w i) \<le> failure_count (stored_or_default w' i)"
  using assms by (auto simp: single_increment_def stored_or_default_def)

lemma fold_counts_mono:
  assumes step: "\<And>x w. single_increment i w (f x w)"
  shows "success_count (stored_or_default w i) \<le> success_count (stored_or_default (fold f xs w) i) \<and>
         failure_count (stored_or_default w i) \<le> failure_count (stored_or_default (fold f xs w) i)"
proof (induction xs arbitrary: w)
  case Nil
  show ?case by simp
next
  case (Cons x xs)
  have a: "success_count (stored_or_default w i) \<le> success_count (stored_or_default (f x w) i) \<and>
         failure_count (stored_or_default w i) \<le> failure_count (stored_or_default (f x w) i)"
    using single_increment_mono [OF step] .
  show ?case using a Cons.IH [of "f x w"] by auto
qed

lemma pubsub_loop_mono:
  "success_count (stored_or_default w i) \<le>
     success_count (stored_or_default (snd (pubsub_loop loads save_ok i channel items w)) i) \<and>
   failure_count (stored_or_default w i) \<le>
     failure_count (stored_or_default (snd (pubsub_loop loads save_ok i channel items w)) i)"
proof (induction loads save_ok i channel items w rule: pubsub_loop.induct)
  case (4 loads save_ok self_id channel msg_type msg_data rest w)
  have a: "success_count (stored_or_default w self_id) \<le>
        success_count (stored_or_default (pubsub_step loads save_ok self_id channel msg_type msg_data w) self_id) \<and>
      failure_count (stored_or_default w self_id) \<le>
        failure_count (stored_or_default (pubsub_step loads save_ok self_id channel msg_type msg_data w) self_id)"
    using single_increment_mono [OF single_increment_pubsub] .
  show ?case using a "4.IH" by auto
qed simp_all

text \<open>
  Claim C9. In the topic consumer, the pub/sub subscriber and the HTTP poller, one
  iteration writes the state of the identity at most once, and what it writes is the
  state read before (the default with both counters at zero when none was stored) with
  exactly one of the two counters raised by exactly one and everything else as it was.
  Hence over any run of each of the three listeners neither persisted counter ever
  decreases.
\<close>

theorem outcome_writes_increment_one:
  "single_increment self_id w (kafka_step loads save_ok self_id message w) \<and>
   single_increment self_id w (pubsub_step loads save_ok self_id channel msg_type msg_data w) \<and>
   single_increment self_id w (poll_api response_json save_ok self_id url method headers params call w) \<and>
   success_count (stored_or_default w self_id) \<le>
     success_count (stored_or_default (snd (kafka_listen loads save_ok self_id connect polls w)) self_id) \<and>
   failure_count (stored_or_default w self_id) \<le>
     failure_count (stored_or_default (snd (kafka_listen loads save_ok self_id connect polls w)) self_id) \<and>
   success_count (stored_or_default w self_id) \<le>
     success_count (stored_or_default (snd (pubsub_listen loads save_ok self_id channel connect items w)) self_id) \<and>
   failure_count (stored_or_default w self_id) \<le>
     failure_count (stored_or_default (snd (pubsub_listen loads save_ok self_id channel connect items w)) self_id) \<and>
   success_count (stored_or_default w self_id) \<le>
     success_count (stored_or_default
        (snd (http_listen response_json save_ok self_id url method headers params calls w)) self_id) \<and>
   failure_count (stored_or_default w self_id) \<le>
     failure_count (stored_or_default
        (snd (http_listen response_json save_ok self_id url method headers params calls w)) self_id)"
proof -
  have k: "success_count (stored_or_default w self_id) \<le>
        success_count (stored_or_default (fold (kafka_step loads save_ok self_id) polls w) self_id) \<and>
      failure_count (stored_or_default w self_id) \<le>
        failure_count (stored_or_default (fold (kafka_step loads save_ok self_id) polls w) self_id)"
    by (rule fold_counts_mono) (rule single_increment_kafka)
  have h: "success_count (stored_or_default w self_id) \<le>
        success_count (stored_or_default
          (fold (poll_api response_json save_ok self_id url method headers params) calls w) self_id) \<and>
      failure_count (stored_or_default w self_id) \<le>
        failure_count (stored_or_default
          (fold (poll_api response_json save_ok self_id url method headers params) calls w) self_id)"
    by (rule fold_counts_mono) (rule single_increment_poll_api)
  have p: "success_count (stored_or_default w self_id) \<le>
     success_count (stored_or_default (snd (pubsub_loop loads save_ok self_id channel items w)) self_id) \<and>
   failure_count (stored_or_default w self_id) \<le>
     failure_count (stored_or_default (snd (pubsub_loop loads save_ok self_id channel items w)) self_id)"
    by (rule pubsub_loop_mono)
  show ?thesis
    using k h p single_increment_kafka [of self_id w loads save_ok message]
      single_increment_pubsub [of self_id w loads save_ok channel msg_type msg_data]
      single_increment_poll_api [of self_id w response_json save_ok url "method" "headers" params call]
    by (cases connect) (simp_all add: kafka_listen_def pubsub_listen_def http_listen_def)
qed

section \<open>The starting position of the log-stream reader\<close>

text \<open>
  Claim C10. The position from which \<open>_listen\<close> of the log-stream reader first reads is
  the \<open>last_id\<close> argument when one is given; otherwise the \<open>last_id\<close> stored for the
  identity, when a state is stored and its \<open>last_id\<close> is a string; otherwise \<open>"0"\<close>.
\<close>

theorem start_position_precedence:
  "cursor (snd (stream_listen save_ok self_id stream_key last_id_arg [] w)) =
     (case last_id_arg of
        Some l \<Rightarrow> l
      | None \<Rightarrow>
          (case store w self_id of
             Some st \<Rightarrow> (case last_id st of PyStr p \<Rightarrow> p | _ \<Rightarrow> ''0'')
           | None \<Rightarrow> ''0''))"
  by (simp add: stream_listen_def start_last_id_def get_state_or_def default_state_def
      pyfield_of_def Let_def split: option.splits pyfield.splits)

end
